theory Spec2Isabelle
  imports Complex_Main "HOL-Library.AList"
begin

section \<open>Errors and batch elements\<close>

text \<open>
  The exceptions that the trainer module can raise, as values.  Every function of the
  model that can raise returns \<open>error + 'a\<close>, with \<open>Inl\<close> for the exception.
  \<open>BeartypeCallHintParamViolation\<close> is what the \<^verbatim>\<open>@beartype\<close> decorator of the class
  raises when an argument does not satisfy the annotation of its parameter;
  \<open>WrapperError\<close> stands for any exception coming out of the stage wrapper.
\<close>

datatype error =
    ValueError
  | AssertionError
  | TypeError
  | KeyError
  | ZeroDivisionError
  | AttributeError
  | OverflowError
  | BeartypeCallHintParamViolation
  | WrapperError

text \<open>
  What the classification predicate of the field table looks at in a batch element: whether
  it is a tensor at all, its element type and its number of dimensions.  \<^verbatim>\<open>torch.float\<close>
  is the 32-bit floating-point type.
\<close>

datatype torch_dtype = Float16 | Float32 | Float64 | Int32 | Int64 | Bool8

datatype batch_el = Tensor torch_dtype nat | NotTensor

type_synonym 'a config = "(string \<times> ('a \<Rightarrow> bool)) list"

type_synonym ('k, 'v) dict = "('k \<times> 'v) list"

definition input_audio :: "batch_el \<Rightarrow> bool" where
  "input_audio el =
     (case el of Tensor dt ndim \<Rightarrow> dt = Float32 \<and> ndim \<in> {2, 3} | NotTensor \<Rightarrow> False)"

definition DATASET_FIELD_TYPE_CONFIG :: "batch_el config" where
  "DATASET_FIELD_TYPE_CONFIG = [(''input_audio'', input_audio)]"

definition exists :: "'a option \<Rightarrow> bool" where
  \<comment> \<open>Modelled from the spec: the helper \<^verbatim>\<open>exists\<close> of the package's \<^verbatim>\<open>utils\<close> module, which
      is not among the sources; the spec speaks of a value being present or absent.\<close>
  "exists val = (val \<noteq> None)"

section \<open>Dictionaries\<close>

text \<open>
  A Python dictionary is an association list with distinct keys in insertion order:
  \<open>AList.update\<close> overwrites the value of a key that is present and appends a new key.
\<close>

definition dict_get :: "('k, 'v) dict \<Rightarrow> 'k \<Rightarrow> 'v \<Rightarrow> 'v" where
  "dict_get d key dflt = (case map_of d key of None \<Rightarrow> dflt | Some v \<Rightarrow> v)"

definition dict_of :: "('k \<times> 'v) list \<Rightarrow> ('k, 'v) dict" where
  "dict_of kvs = fold (\<lambda>(k, v) d. AList.update k v d) kvs []"

section \<open>Routing of batch elements to keyword arguments\<close>

text \<open>
  \<^verbatim>\<open>has_duplicates\<close>: count the occurrences of every element in a dictionary, then ask
  whether any of the counts above one is truthy.
\<close>

definition count_step :: "'a \<Rightarrow> ('a, nat) dict \<Rightarrow> ('a, nat) dict" where
  "count_step el counts =
     (let counts' = (if map_of counts el = None then AList.update el 0 counts else counts)
      in AList.update el (dict_get counts' el 0 + 1) counts')"

definition has_duplicates :: "'a list \<Rightarrow> bool" where
  "has_duplicates tup =
     (let counts = fold count_step tup []
      in list_ex (\<lambda>c. c \<noteq> 0) (filter (\<lambda>count. count > 1) (map snd counts)))"

text \<open>
  \<^verbatim>\<open>determine_types\<close>.  The inner loop tries the entries of the table in order and stops at
  the first whose predicate holds; falling off its end raises.  Besides its result each
  function returns the predicate calls it made, in order, as pairs of the element tested
  and the entry's name.
\<close>

fun first_match :: "'a config \<Rightarrow> 'a \<Rightarrow> string option \<times> ('a \<times> string) list" where
  "first_match [] el = (None, [])"
| "first_match ((name, data_type) # config) el =
     (if data_type el then (Some name, [(el, name)])
      else (case first_match config el of (r, calls) \<Rightarrow> (r, (el, name) # calls)))"

fun determine_types :: "'a list \<Rightarrow> 'a config \<Rightarrow> (error + string list) \<times> ('a \<times> string) list" where
  "determine_types [] config = (Inr [], [])"
| "determine_types (el # data) config =
     (case first_match config el of
        (None, calls) \<Rightarrow> (Inl TypeError, calls)
      | (Some name, calls) \<Rightarrow>
          (case determine_types data config of
             (Inl e, calls') \<Rightarrow> (Inl e, calls @ calls')
           | (Inr output, calls') \<Rightarrow> (Inr (name # output), calls @ calls')))"

section \<open>The step counter\<close>

text \<open>
  The counter is the buffer \<^verbatim>\<open>torch.Tensor([0])\<close>: one 32-bit floating-point number.  It
  only ever holds whole numbers, so it is modelled by the natural number it holds, and
  every arithmetic result is rounded to the nearest number with a 24-bit significand, ties
  to the even significand, as the hardware does.  \<open>drop_count n\<close> is the number of low bits
  of \<open>n\<close> that do not fit.  (Numbers beyond the largest finite 32-bit float, which round to
  infinity, are not modelled.)
\<close>

function drop_count :: "nat \<Rightarrow> nat" where
  "drop_count n = (if n < 2 ^ 24 then 0 else Suc (drop_count (n div 2)))"
  by pat_completeness auto
termination
  by (relation "measure (\<lambda>n. n)") auto

declare drop_count.simps [simp del]

definition float32_round :: "nat \<Rightarrow> nat" where
  "float32_round n =
     (let e = drop_count n; q = n div 2 ^ e; r = n mod 2 ^ e
      in if 2 * r < 2 ^ e then q * 2 ^ e
         else if 2 ^ e < 2 * r then (q + 1) * 2 ^ e
         else if even q then q * 2 ^ e else (q + 1) * 2 ^ e)"

definition float32_of_int :: "int \<Rightarrow> int" where
  "float32_of_int i = (if i < 0 then - int (float32_round (nat (- i))) else int (float32_round (nat i)))"

definition py_mod :: "int \<Rightarrow> int \<Rightarrow> error + int" where
  \<comment> \<open>Python's \<^verbatim>\<open>%\<close> on integers: the sign of the divisor, as \<open>mod\<close> on \<open>int\<close>; zero raises.\<close>
  "py_mod a b = (if b = 0 then Inl ZeroDivisionError else Inr (a mod b))"

text \<open>\<^verbatim>\<open>str\<close> of a whole number that is not negative: its decimal digits.\<close>

fun digits :: "nat \<Rightarrow> string" where
  "digits n =
     (if n < 10 then [''0123456789'' ! n]
      else digits (n div 10) @ [''0123456789'' ! (n mod 10)])"

declare digits.simps [simp del]

section \<open>Floating-point rounding\<close>






section \<open>The session\<close>

datatype stage_wrapper = SemanticStage | CoarseStage | FineStage

text \<open>\<open>PathJoin folder name\<close> is the path \<^verbatim>\<open>Path(folder) / name\<close>.\<close>

datatype path = PathJoin string string

text \<open>
  A data loader yields \<open>n_batches\<close> batches on every pass; with shuffling the batches of one
  pass differ from those of the next, so \<open>batch_at\<close> takes the number of the pass and the
  position in it.  \<^verbatim>\<open>cycle\<close> runs pass after pass for ever.
\<close>

record dataloader =
  n_batches :: nat
  batch_at :: "nat \<Rightarrow> nat \<Rightarrow> batch_el list"

record cycle_iter =
  loader :: dataloader
  epoch :: nat
  pos :: nat

definition cycle :: "dataloader \<Rightarrow> cycle_iter" where
  "cycle dl = \<lparr>loader = dl, epoch = 0, pos = 0\<rparr>"

definition next_batch :: "cycle_iter \<Rightarrow> (batch_el list \<times> cycle_iter) option" where
  \<comment> \<open>\<^verbatim>\<open>next\<close> on the generator; over an empty loader the generator never yields: \<open>None\<close>.\<close>
  "next_batch it =
     (if n_batches (loader it) = 0 then None
      else if pos it < n_batches (loader it)
        then Some (batch_at (loader it) (epoch it) (pos it), it\<lparr>pos := Suc (pos it)\<rparr>)
        else Some (batch_at (loader it) (Suc (epoch it)) 0,
                   it\<lparr>epoch := Suc (epoch it), pos := 1\<rparr>))"

text \<open>
  What a session does to the outside, in order: the predicate calls of the field
  inference, console lines, entries of the metrics tracker, files written, calls of the
  caller's callback.  \<open>'l\<close> is a loss as the stage wrapper returns it (a tensor), \<open>'f\<close> a
  Python float, \<open>'sd\<close> a parameter state.
\<close>

datatype ('l, 'f, 'sd) event =
    IsBearable batch_el string
  | PrintLoss nat 'f
  | LogTrainLoss 'f nat
  | PrintValidLoss nat 'l
  | LogValidLoss 'l nat
  | TorchSave path 'sd
  | PrintSaving nat string
  | LogFn "(string, 'f) dict"
  | PrintTrainingComplete

record ('m, 'l, 'f, 'sd) trainer =
  train_wrapper :: stage_wrapper
  model :: 'm
  steps :: nat
  num_train_steps :: int
  batch_size :: int
  grad_accum_every :: int
  max_grad_norm :: "rat option"
  ds :: nat
  valid_ds :: nat
  ds_fields :: "string list option"
  dl_iter :: cycle_iter
  valid_dl_iter :: cycle_iter
  save_model_every :: int
  save_results_every :: int
  results_folder :: string
  is_main :: bool
  trace :: "('l, 'f, 'sd) event list"

text \<open>
  The collaborators of a step, passed in: the stage wrapper's loss on the model and
  optimizer state \<open>'m\<close>, the harness's backward pass and gradient clipping, the optimizer,
  the mode switches, the parameter state, and floating-point arithmetic (division of a
  tensor and of a Python float by a whole number, addition of Python floats, and \<^verbatim>\<open>0.\<close>),
  none of which this module implements.
\<close>

record ('m, 'l, 'f, 'sd) env =
  wrapper_loss :: "'m \<Rightarrow> (string, batch_el) dict \<Rightarrow> error + 'l"
  backward :: "'l \<Rightarrow> 'm \<Rightarrow> 'm"
  clip_grad_norm :: "rat \<Rightarrow> 'm \<Rightarrow> 'm"
  optim_step :: "'m \<Rightarrow> 'm"
  zero_grad :: "'m \<Rightarrow> 'm"
  set_train :: "'m \<Rightarrow> 'm"
  set_eval :: "'m \<Rightarrow> 'm"
  state_dict :: "'m \<Rightarrow> 'sd"
  tensor_div :: "'l \<Rightarrow> int \<Rightarrow> 'l"
  item :: "'l \<Rightarrow> 'f"
  float_div :: "'f \<Rightarrow> int \<Rightarrow> 'f"
  float_add :: "'f \<Rightarrow> 'f \<Rightarrow> 'f"
  float_zero :: 'f

definition accum_log ::
  "('m, 'l, 'f, 'sd) env \<Rightarrow> (string, 'f) dict \<Rightarrow> (string, 'f) dict \<Rightarrow> (string, 'f) dict" where
  "accum_log env lg new_logs =
     fold (\<lambda>(key, new_value) lg.
             let old_value = dict_get lg key (float_zero env)
             in AList.update key (float_add env old_value new_value) lg)
          new_logs lg"

definition data_tuple_to_kwargs ::
  "batch_el list \<Rightarrow> ('m, 'l, 'f, 'sd) trainer \<Rightarrow>
     (error + (string, batch_el) dict) \<times> ('m, 'l, 'f, 'sd) trainer" where
  "data_tuple_to_kwargs data t =
     (case ds_fields t of
        None \<Rightarrow>
          (case determine_types data DATASET_FIELD_TYPE_CONFIG of
             (Inl e, calls) \<Rightarrow>
               (Inl e, t\<lparr>trace := trace t @ map (\<lambda>(el, name). IsBearable el name) calls\<rparr>)
           | (Inr names, calls) \<Rightarrow>
               (let t' = t\<lparr>ds_fields := Some names,
                            trace := trace t @ map (\<lambda>(el, name). IsBearable el name) calls\<rparr>
                in if has_duplicates names then (Inl AssertionError, t')
                   else (Inr (dict_of (zip names data)), t')))
      | Some names \<Rightarrow> (Inr (dict_of (zip names data)), t))"

section \<open>One training step\<close>

text \<open>
  The gradient-accumulation loop of \<^verbatim>\<open>train_step\<close>, by recursion on the number of
  micro-batches still to run.  A result \<open>None\<close> means that the step does not return (the
  batch iterator never yields).
\<close>

fun accum_loop ::
  "('m, 'l, 'f, 'sd) env \<Rightarrow> nat \<Rightarrow> (string, 'f) dict \<Rightarrow> ('m, 'l, 'f, 'sd) trainer \<Rightarrow>
     ((error + (string, 'f) dict) \<times> ('m, 'l, 'f, 'sd) trainer) option" where
  "accum_loop env 0 logs t = Some (Inr logs, t)"
| "accum_loop env (Suc k) logs t =
     (case next_batch (dl_iter t) of
        None \<Rightarrow> None
      | Some (data, it) \<Rightarrow>
          (case data_tuple_to_kwargs data (t\<lparr>dl_iter := it\<rparr>) of
             (Inl e, t1) \<Rightarrow> Some (Inl e, t1)
           | (Inr data_kwargs, t1) \<Rightarrow>
               (case wrapper_loss env (model t1) data_kwargs of
                  Inl e \<Rightarrow> Some (Inl e, t1)
                | Inr loss \<Rightarrow>
                    accum_loop env k
                      (accum_log env logs
                         [(''loss'', float_div env (item env loss) (grad_accum_every t1))])
                      (t1\<lparr>model :=
                            backward env (tensor_div env loss (grad_accum_every t1)) (model t1)\<rparr>))))"

text \<open>The block "sample results every so often" of \<^verbatim>\<open>train_step\<close>.\<close>

definition sample_results_block ::
  "('m, 'l, 'f, 'sd) env \<Rightarrow> nat \<Rightarrow> ('m, 'l, 'f, 'sd) trainer \<Rightarrow>
     ((error + unit) \<times> ('m, 'l, 'f, 'sd) trainer) option" where
  "sample_results_block env stp t =
     (if \<not> is_main t then Some (Inr (), t)
      else (case py_mod (int stp) (save_results_every t) of
              Inl e \<Rightarrow> Some (Inl e, t)
            | Inr r \<Rightarrow>
                if r \<noteq> 0 then Some (Inr (), t)
                else (case next_batch (valid_dl_iter t) of
                        None \<Rightarrow> None
                      | Some (data, it) \<Rightarrow>
                          (case data_tuple_to_kwargs data (t\<lparr>valid_dl_iter := it\<rparr>) of
                             (Inl e, t1) \<Rightarrow> Some (Inl e, t1)
                           | (Inr data_kwargs, t1) \<Rightarrow>
                               (let t2 = t1\<lparr>model := set_eval env (model t1)\<rparr>
                                in case wrapper_loss env (model t2) data_kwargs of
                                     Inl e \<Rightarrow> Some (Inl e, t2)
                                   | Inr valid_loss \<Rightarrow>
                                       Some (Inr (),
                                         t2\<lparr>trace := trace t2 @
                                              [PrintValidLoss stp valid_loss,
                                               LogValidLoss valid_loss stp]\<rparr>))))))"

text \<open>The block "save model every so often" of \<^verbatim>\<open>train_step\<close>.\<close>

definition save_model_block ::
  "('m, 'l, 'f, 'sd) env \<Rightarrow> nat \<Rightarrow> ('m, 'l, 'f, 'sd) trainer \<Rightarrow>
     (error + unit) \<times> ('m, 'l, 'f, 'sd) trainer" where
  "save_model_block env stp t =
     (if \<not> is_main t then (Inr (), t)
      else (case py_mod (int stp) (save_model_every t) of
              Inl e \<Rightarrow> (Inl e, t)
            | Inr r \<Rightarrow>
                if r \<noteq> 0 then (Inr (), t)
                else (let state = state_dict env (model t);
                          model_path = PathJoin (results_folder t)
                                         (''semantic.transformer.'' @ digits stp @ ''.pt'')
                      in (Inr (),
                          t\<lparr>trace := trace t @
                               [TorchSave model_path state,
                                PrintSaving stp (results_folder t)]\<rparr>))))"

definition train_step ::
  "('m, 'l, 'f, 'sd) env \<Rightarrow> ('m, 'l, 'f, 'sd) trainer \<Rightarrow>
     ((error + (string, 'f) dict) \<times> ('m, 'l, 'f, 'sd) trainer) option" where
  "train_step env t =
     (let stp = steps t;
          t0 = t\<lparr>model := set_train env (model t)\<rparr>
      in case accum_loop env (nat (grad_accum_every t0)) [] t0 of
           None \<Rightarrow> None
         | Some (Inl e, t1) \<Rightarrow> Some (Inl e, t1)
         | Some (Inr logs, t1) \<Rightarrow>
             (let clipped = (case max_grad_norm t1 of
                               None \<Rightarrow> model t1
                             | Some g \<Rightarrow> clip_grad_norm env g (model t1));
                  t2 = t1\<lparr>model := zero_grad env (optim_step env clipped)\<rparr>
              in case map_of logs ''loss'' of
                   None \<Rightarrow> Some (Inl KeyError, t2)
                 | Some l \<Rightarrow>
                     (let t3 = t2\<lparr>trace := trace t2 @ [PrintLoss stp l, LogTrainLoss l stp]\<rparr>
                      in case sample_results_block env stp t3 of
                           None \<Rightarrow> None
                         | Some (Inl e, t4) \<Rightarrow> Some (Inl e, t4)
                         | Some (Inr u, t4) \<Rightarrow>
                             (case save_model_block env stp t4 of
                                (Inl e, t5) \<Rightarrow> Some (Inl e, t5)
                              | (Inr u', t5) \<Rightarrow>
                                  Some (Inr logs,
                                        t5\<lparr>steps := float32_round (steps t5 + 1)\<rparr>)))))"




text \<open>
  \<^verbatim>\<open>train\<close>: the loop runs while the counter is below the configured total, which the
  comparison with the 32-bit buffer takes as a 32-bit float; a total that does not fit a
  signed 64-bit integer makes the comparison raise.  The callback is recorded in the
  trace.  The loop need not end, so the function is partial: \<open>None\<close> is not returning.
\<close>

partial_function (option) train ::
  "('m, 'l, 'f, 'sd) env \<Rightarrow> ('m, 'l, 'f, 'sd) trainer \<Rightarrow>
     ((error + unit) \<times> ('m, 'l, 'f, 'sd) trainer) option" where
  "train env t =
     (if num_train_steps t < - (2 ^ 63) \<or> 2 ^ 63 \<le> num_train_steps t
        then Some (Inl OverflowError, t)
      else if int (steps t) < float32_of_int (num_train_steps t) then
        (case train_step env t of
           None \<Rightarrow> None
         | Some (Inl e, t') \<Rightarrow> Some (Inl e, t')
         | Some (Inr logs, t') \<Rightarrow> train env (t'\<lparr>trace := trace t' @ [LogFn logs]\<rparr>))
      else Some (Inr (), t\<lparr>trace := trace t @ [PrintTrainingComplete]\<rparr>))"

section \<open>Construction\<close>

text \<open>
  Dataset objects live in a store and are referred to by their address, so that "the same
  object" is "the same address".  A dataset handed in by the caller reports a length; a
  \<open>SoundDataset\<close> is built from a folder; a \<open>Subset\<close> holds the address of its parent and
  the indices it keeps.
\<close>

datatype wav2vec = Wav2Vec (target_sample_hz: nat) (seq_len_multiple_of: "nat option")

datatype neural_codec = NeuralCodec

datatype clap_quantized = ClapQuantized

datatype dataset_obj =
    CustomDataset nat
  | SoundDataset string "nat option" nat "nat option"
  | Subset nat "nat list"

datatype init_event =
    AcceleratorInit
  | GetOptimizer
  | SoundDatasetInit string
  | RandomSplit nat int int int
  | PrintSplit nat nat
  | PrintShared nat
  | GetDataloader nat
  | Prepare
  | Glob string
  | Input string
  | Rmtree string
  | Mkdir string
  | InitTrackers string

text \<open>
  The surroundings of a construction: the store, what the file system and the operator
  will answer, the state of the process-wide random generator, whether this is the primary
  process, and the events so far.  \<^verbatim>\<open>SoundDataset\<close> and \<^verbatim>\<open>get_dataloader\<close> belong to the
  package's data module, which is not among the sources: the number of samples that a
  folder holds (\<open>folder_len\<close>) and the loader that \<^verbatim>\<open>get_dataloader\<close> makes over a dataset
  with a batch size (\<open>loaders\<close>) are taken from the surroundings.
\<close>

record world =
  heap :: "nat \<Rightarrow> dataset_obj"
  next_ref :: nat
  folder_len :: "string \<Rightarrow> nat"
  loaders :: "nat \<Rightarrow> int \<Rightarrow> dataloader"
  results_nonempty :: "string \<Rightarrow> bool"
  answer :: string
  global_rng :: nat
  main_process :: bool
  events :: "init_event list"

record 'm init_args =
  arg_transformer :: 'm
  arg_stage :: string
  arg_num_train_steps :: int
  arg_batch_size :: int
  arg_dataset :: "nat option"
  arg_wav2vec :: "wav2vec option"
  arg_neural_codec :: "neural_codec option"
  arg_audio_conditioner :: "clap_quantized option"
  arg_data_max_length :: "nat option"
  arg_folder :: "string option"
  arg_lr :: rat
  arg_grad_accum_every :: int
  arg_wd :: rat
  arg_max_grad_norm :: "rat option"
  arg_valid_frac :: rat
  arg_random_split_seed :: int
  arg_save_results_every :: int
  arg_save_model_every :: int
  arg_results_folder :: string

text \<open>
  Library functions that the constructor calls, passed in: \<^verbatim>\<open>random_split\<close> under a generator
  freshly seeded with the given seed, as the index lists of the two parts (from the seed,
  the length of the dataset and the two sizes); the floating-point computation
  \<^verbatim>\<open>int((1 - valid_frac) * len)\<close>; the optimizer's construction and the harness's
  preparation, on the model and optimizer state.  A fraction is taken at the exact value
  of the float.
\<close>

record 'm lib =
  random_split_indices :: "int \<Rightarrow> nat \<Rightarrow> int \<Rightarrow> int \<Rightarrow> error + nat list \<times> nat list"
  train_size_of :: "rat \<Rightarrow> nat \<Rightarrow> int"
  get_optimizer :: "'m \<Rightarrow> rat \<Rightarrow> rat \<Rightarrow> 'm"
  prepare :: "'m \<Rightarrow> 'm"

definition emit :: "init_event list \<Rightarrow> world \<Rightarrow> world" where
  "emit evs w = w\<lparr>events := events w @ evs\<rparr>"

definition alloc :: "dataset_obj \<Rightarrow> world \<Rightarrow> nat \<times> world" where
  "alloc obj w = (next_ref w, w\<lparr>heap := (heap w)(next_ref w := obj), next_ref := Suc (next_ref w)\<rparr>)"

definition ds_len :: "world \<Rightarrow> nat \<Rightarrow> nat" where
  "ds_len w r =
     (case heap w r of
        CustomDataset n \<Rightarrow> n
      | SoundDataset folder max_length hz multiple \<Rightarrow> folder_len w folder
      | Subset parent indices \<Rightarrow> length indices)"

definition lower :: "string \<Rightarrow> string" where
  \<comment> \<open>\<^verbatim>\<open>str.lower\<close> on ASCII letters.\<close>
  "lower s = map (\<lambda>c. if 65 \<le> (of_char c :: nat) \<and> (of_char c :: nat) \<le> 90
                        then char_of ((of_char c :: nat) + 32) else c) s"

definition yes_or_no :: "string \<Rightarrow> world \<Rightarrow> bool \<times> world" where
  "yes_or_no question w =
     (let w' = emit [Input question] w
      in (lower (answer w') \<in> set [''yes'', ''y''], w'))"

text \<open>The stage dispatch at the head of \<^verbatim>\<open>__init__\<close>.\<close>

definition select_wrapper :: "'m init_args \<Rightarrow> error + stage_wrapper" where
  "select_wrapper a =
     (if arg_stage a = ''semantic'' then
        (if exists (arg_audio_conditioner a) \<and> exists (arg_wav2vec a)
         then Inr SemanticStage else Inl AssertionError)
      else if arg_stage a = ''coarse'' then
        (if exists (arg_wav2vec a) \<and> exists (arg_audio_conditioner a) \<and> exists (arg_neural_codec a)
         then Inr CoarseStage else Inl AssertionError)
      else if arg_stage a = ''fine'' then
        (if exists (arg_audio_conditioner a) \<and> exists (arg_neural_codec a)
         then Inr FineStage else Inl AssertionError)
      else Inl ValueError)"

text \<open>The block "create dataset": the caller's dataset, or a new one over the folder.\<close>

definition create_dataset :: "'m init_args \<Rightarrow> world \<Rightarrow> (error + nat) \<times> world" where
  "create_dataset a w =
     (case arg_dataset a of
        Some r \<Rightarrow> (Inr r, w)
      | None \<Rightarrow>
          (case arg_folder a of
             None \<Rightarrow> (Inl AssertionError, w)
           | Some folder \<Rightarrow>
               (case arg_wav2vec a of
                  None \<Rightarrow> (Inl AttributeError, w)
                | Some wv \<Rightarrow>
                    (let (r, w') = alloc (SoundDataset folder (arg_data_max_length a)
                                            (target_sample_hz wv) (seq_len_multiple_of wv)) w
                     in (Inr r, emit [SoundDatasetInit folder] w')))))"

text \<open>The block "split for validation": the addresses of the two partitions.\<close>

definition split_for_validation ::
  "'m lib \<Rightarrow> 'm init_args \<Rightarrow> nat \<Rightarrow> world \<Rightarrow> (error + nat \<times> nat) \<times> world" where
  "split_for_validation lb a r w =
     (if arg_valid_frac a > 0 then
        (let n = ds_len w r;
             train_size = train_size_of lb (arg_valid_frac a) n;
             valid_size = int n - train_size;
             w1 = emit [RandomSplit r train_size valid_size (arg_random_split_seed a)] w
         in case random_split_indices lb (arg_random_split_seed a) n train_size valid_size of
              Inl e \<Rightarrow> (Inl e, w1)
            | Inr (train_indices, valid_indices) \<Rightarrow>
                (let (r1, w2) = alloc (Subset r train_indices) w1;
                     (r2, w3) = alloc (Subset r valid_indices) w2
                 in (Inr (r1, r2), emit [PrintSplit (ds_len w3 r1) (ds_len w3 r2)] w3)))
      else (Inr (r, r), emit [PrintShared (ds_len w r)] w))"

text \<open>The results folder: cleared only if it holds something and the operator agrees.\<close>

definition prepare_results_folder :: "string \<Rightarrow> world \<Rightarrow> world" where
  "prepare_results_folder folder w =
     (let w1 = emit [Glob folder] w;
          w2 = (if results_nonempty w1 folder then
                  (case yes_or_no ''do you want to clear previous experiment checkpoints and results?'' w1 of
                     (yes, w') \<Rightarrow> if yes then emit [Rmtree folder] w' else w')
                else w1)
      in emit [Mkdir folder] w2)"

definition SingleStageTrainer_init ::
  "'m lib \<Rightarrow> 'm init_args \<Rightarrow> world \<Rightarrow> (error + ('m, 'l, 'f, 'sd) trainer) \<times> world" where
  "SingleStageTrainer_init lb a w =
     (let w1 = emit [AcceleratorInit] w
      in case select_wrapper a of
           Inl e \<Rightarrow> (Inl e, w1)
         | Inr wrapper \<Rightarrow>
             (let optim = get_optimizer lb (arg_transformer a) (arg_lr a) (arg_wd a);
                  w2 = emit [GetOptimizer] w1
              in case create_dataset a w2 of
                   (Inl e, w3) \<Rightarrow> (Inl e, w3)
                 | (Inr r, w3) \<Rightarrow>
                     (case split_for_validation lb a r w3 of
                        (Inl e, w4) \<Rightarrow> (Inl e, w4)
                      | (Inr (r1, r2), w4) \<Rightarrow>
                          (let dl = loaders w4 r1 (arg_batch_size a);
                               valid_dl = loaders w4 r2 (arg_batch_size a);
                               w5 = emit [GetDataloader r1, GetDataloader r2, Prepare] w4;
                               w6 = prepare_results_folder (arg_results_folder a) w5;
                               w7 = emit [InitTrackers ''semantic''] w6
                           in (Inr \<lparr>train_wrapper = wrapper,
                                    model = prepare lb optim,
                                    steps = float32_round 0,
                                    num_train_steps = arg_num_train_steps a,
                                    batch_size = arg_batch_size a,
                                    grad_accum_every = arg_grad_accum_every a,
                                    max_grad_norm = arg_max_grad_norm a,
                                    ds = r1,
                                    valid_ds = r2,
                                    ds_fields = None,
                                    dl_iter = cycle dl,
                                    valid_dl_iter = cycle valid_dl,
                                    save_model_every = arg_save_model_every a,
                                    save_results_every = arg_save_results_every a,
                                    results_folder = arg_results_folder a,
                                    is_main = main_process w7,
                                    trace = []\<rparr>, w7)))))"

text \<open>
  The class is decorated with \<^verbatim>\<open>@beartype\<close>, which checks the arguments of a call of the
  constructor against the annotations before the body runs.  The stage is annotated
  \<^verbatim>\<open>Literal['semantic', 'coarse', 'fine']\<close>; the other annotated parameters are typed in the
  model, so only the stage can violate its annotation.
\<close>

definition SingleStageTrainer ::
  "'m lib \<Rightarrow> 'm init_args \<Rightarrow> world \<Rightarrow> (error + ('m, 'l, 'f, 'sd) trainer) \<times> world" where
  "SingleStageTrainer lb a w =
     (if arg_stage a \<notin> set [''semantic'', ''coarse'', ''fine'']
      then (Inl BeartypeCallHintParamViolation, w)
      else SingleStageTrainer_init lb a w)"

section \<open>Reading a trace\<close>

definition saved_paths :: "('l, 'f, 'sd) event list \<Rightarrow> path list" where
  "saved_paths evs = concat (map (\<lambda>ev. case ev of TorchSave p sd \<Rightarrow> [p] | _ \<Rightarrow> []) evs)"

definition valid_loss_steps :: "('l, 'f, 'sd) event list \<Rightarrow> nat list" where
  "valid_loss_steps evs = concat (map (\<lambda>ev. case ev of LogValidLoss l s \<Rightarrow> [s] | _ \<Rightarrow> []) evs)"

definition train_loss_steps :: "('l, 'f, 'sd) event list \<Rightarrow> nat list" where
  "train_loss_steps evs = concat (map (\<lambda>ev. case ev of LogTrainLoss l s \<Rightarrow> [s] | _ \<Rightarrow> []) evs)"

definition predicate_calls :: "('l, 'f, 'sd) event list \<Rightarrow> (batch_el \<times> string) list" where
  "predicate_calls evs =
     concat (map (\<lambda>ev. case ev of IsBearable el name \<Rightarrow> [(el, name)] | _ \<Rightarrow> []) evs)"

text \<open>
  A loader that a session can run on: it is not empty, and every batch is a tuple of one
  32-bit floating-point tensor of two or three dimensions.
\<close>

definition audio_loader :: "dataloader \<Rightarrow> bool" where
  "audio_loader dl =
     (0 < n_batches dl \<and>
      (\<forall>e p. \<exists>el. batch_at dl e p = [el] \<and> input_audio el))"

text \<open>
  Two ways of relating sessions, used to state what a step leaves alone and what a run
  needs: \<open>same_settings\<close> says that the configuration, the counter and the loaders behind
  the iterators agree; \<open>ready\<close> says that both loaders yield audio batches, that the cached
  field names, if any, are those of such a batch, that there is at least one micro-batch
  per step, and that the stage wrapper returns a loss on every call.
\<close>

definition same_settings :: "('m, 'l, 'f, 'sd) trainer \<Rightarrow> ('m, 'l, 'f, 'sd) trainer \<Rightarrow> bool" where
  "same_settings t t' =
     (train_wrapper t' = train_wrapper t \<and> steps t' = steps t \<and>
      num_train_steps t' = num_train_steps t \<and> batch_size t' = batch_size t \<and>
      grad_accum_every t' = grad_accum_every t \<and> max_grad_norm t' = max_grad_norm t \<and>
      ds t' = ds t \<and> valid_ds t' = valid_ds t \<and>
      loader (dl_iter t') = loader (dl_iter t) \<and>
      loader (valid_dl_iter t') = loader (valid_dl_iter t) \<and>
      save_model_every t' = save_model_every t \<and>
      save_results_every t' = save_results_every t \<and>
      results_folder t' = results_folder t \<and> is_main t' = is_main t)"

definition ready :: "('m, 'l, 'f, 'sd) env \<Rightarrow> ('m, 'l, 'f, 'sd) trainer \<Rightarrow> bool" where
  "ready env t =
     (audio_loader (loader (dl_iter t)) \<and> audio_loader (loader (valid_dl_iter t)) \<and>
      (ds_fields t = None \<or> ds_fields t = Some [''input_audio'']) \<and>
      0 < grad_accum_every t \<and>
      (\<forall>m kwargs. \<exists>l. wrapper_loss env m kwargs = Inr l))"

definition callback_calls :: "('l, 'f, 'sd) event list \<Rightarrow> nat" where
  "callback_calls evs = length (concat (map (\<lambda>ev. case ev of LogFn logs \<Rightarrow> [logs] | _ \<Rightarrow> []) evs))"

definition same_outputs :: "('m, 'l, 'f, 'sd) trainer \<Rightarrow> ('m, 'l, 'f, 'sd) trainer \<Rightarrow> bool" where
  "same_outputs t t' =
     (saved_paths (trace t') = saved_paths (trace t) \<and>
      valid_loss_steps (trace t') = valid_loss_steps (trace t) \<and>
      train_loss_steps (trace t') = train_loss_steps (trace t) \<and>
      callback_calls (trace t') = callback_calls (trace t))"

section \<open>A small session\<close>

text \<open>
  Stand-ins for the collaborators, for running the model on concrete inputs: a wrapper
  whose loss is always one, an optimizer that counts its updates, exact arithmetic on
  rationals, a split that deals the indices out from the back, a training size that is
  the floor of the exact product (the float computation of the code can differ from it
  by rounding), a dataset of twenty samples at address \<open>0\<close>, loaders of two batches of
  one audio tensor each, an empty results folder.
\<close>

definition demo_env :: "(nat, rat, rat, nat) env" where
  "demo_env =
     \<lparr>wrapper_loss = (\<lambda>m kwargs. Inr 1),
      backward = (\<lambda>l m. m),
      clip_grad_norm = (\<lambda>g m. m),
      optim_step = Suc,
      zero_grad = (\<lambda>m. m),
      set_train = (\<lambda>m. m),
      set_eval = (\<lambda>m. m),
      state_dict = (\<lambda>m. m),
      tensor_div = (\<lambda>l n. l / of_int n),
      item = (\<lambda>l. l),
      float_div = (\<lambda>x n. x / of_int n),
      float_add = (\<lambda>x y. x + y),
      float_zero = 0\<rparr>"


definition demo_lib :: "nat lib" where
  "demo_lib =
     \<lparr>random_split_indices =
        (\<lambda>seed n train_size valid_size.
           Inr (take (nat train_size) (rev [0..<n]), drop (nat train_size) (rev [0..<n]))),
      train_size_of = (\<lambda>frac n. \<lfloor>(1 - frac) * of_nat n\<rfloor>),
      get_optimizer = (\<lambda>m lr wd. m),
      prepare = (\<lambda>m. m)\<rparr>"

definition demo_loader :: dataloader where
  "demo_loader = \<lparr>n_batches = 2, batch_at = (\<lambda>e p. [Tensor Float32 2])\<rparr>"

definition demo_world :: world where
  "demo_world =
     \<lparr>heap = (\<lambda>r. CustomDataset 20),
      next_ref = 1,
      folder_len = (\<lambda>folder. 0),
      loaders = (\<lambda>r batch_size. demo_loader),
      results_nonempty = (\<lambda>folder. False),
      answer = [],
      global_rng = 0,
      main_process = True,
      events = []\<rparr>"


definition demo_args :: "nat init_args" where
  "demo_args =
     \<lparr>arg_transformer = 0,
      arg_stage = ''semantic'',
      arg_num_train_steps = 5,
      arg_batch_size = 4,
      arg_dataset = Some 0,
      arg_wav2vec = Some (Wav2Vec 16000 None),
      arg_neural_codec = Some NeuralCodec,
      arg_audio_conditioner = Some ClapQuantized,
      arg_data_max_length = None,
      arg_folder = None,
      arg_lr = 3 / 10000,
      arg_grad_accum_every = 1,
      arg_wd = 0,
      arg_max_grad_norm = Some (1 / 2),
      arg_valid_frac = 1 / 20,
      arg_random_split_seed = 42,
      arg_save_results_every = 2,
      arg_save_model_every = 2,
      arg_results_folder = ''./results''\<rparr>"

definition demo_trainer :: "(nat, rat, rat, nat) trainer" where
  "demo_trainer =
     \<lparr>train_wrapper = SemanticStage,
      model = 0,
      steps = 0,
      num_train_steps = 5,
      batch_size = 4,
      grad_accum_every = 1,
      max_grad_norm = Some (1 / 2),
      ds = 1,
      valid_ds = 2,
      ds_fields = None,
      dl_iter = cycle demo_loader,
      valid_dl_iter = cycle demo_loader,
      save_model_every = 2,
      save_results_every = 2,
      results_folder = ''./results'',
      is_main = True,
      trace = []\<rparr>"

text \<open>
  The files that the first step of a session writes, for the small session built by the
  constructor with the given stage name.
\<close>

definition first_step_files :: "string \<Rightarrow> path list option" where
  "first_step_files stage_name =
     (case fst (SingleStageTrainer demo_lib (demo_args\<lparr>arg_stage := stage_name\<rparr>) demo_world) of
        Inl e \<Rightarrow> None
      | Inr t \<Rightarrow> map_option (\<lambda>(r, t'). saved_paths (trace t')) (train_step demo_env t))"

section \<open>Facts about the helper functions\<close>

lemma map_of_count_step:
  "map_of (count_step el counts) = (map_of counts)(el \<mapsto> dict_get counts el 0 + 1)"
  by (auto simp: count_step_def dict_get_def Let_def update_conv' fun_eq_iff split: option.splits)

lemma distinct_count_step:
  "distinct (map fst counts) \<Longrightarrow> distinct (map fst (count_step el counts))"
  by (simp add: count_step_def Let_def distinct_update)

lemma fold_count_step_distinct:
  "distinct (map fst acc) \<Longrightarrow> distinct (map fst (fold count_step xs acc))"
  by (induction xs arbitrary: acc) (simp_all add: distinct_count_step)

lemma fold_count_step_map_of:
  "map_of (fold count_step xs acc) k =
     (if k \<in> set xs \<or> map_of acc k \<noteq> None then Some (count_list xs k + dict_get acc k 0) else None)"
proof (induction xs arbitrary: acc)
  case Nil
  then show ?case by (auto simp: dict_get_def)
next
  case (Cons x xs)
  show ?case
    by (simp add: Cons.IH map_of_count_step) (auto simp: dict_get_def map_of_count_step)
qed

lemma distinct_iff_count_list: "distinct xs \<longleftrightarrow> (\<forall>k. count_list xs k \<le> 1)"
proof (induction xs)
  case Nil
  then show ?case by simp
next
  case (Cons x xs)
  show ?case
  proof
    assume d: "distinct (x # xs)"
    then have "count_list xs x = 0" by (simp add: count_list_0_iff)
    with d Cons show "\<forall>k. count_list (x # xs) k \<le> 1" by auto
  next
    assume a: "\<forall>k. count_list (x # xs) k \<le> 1"
    then have "count_list (x # xs) x \<le> 1" by blast
    then have "x \<notin> set xs" by (simp add: count_list_0_iff)
    moreover have "\<forall>k. count_list xs k \<le> 1"
    proof
      fix k
      from a have "count_list (x # xs) k \<le> 1" by blast
      then show "count_list xs k \<le> 1" by (simp split: if_splits)
    qed
    ultimately show "distinct (x # xs)" using Cons by simp
  qed
qed

lemma has_duplicates_iff: "has_duplicates tup \<longleftrightarrow> \<not> distinct tup"
proof -
  let ?counts = "fold count_step tup []"
  have d: "distinct (map fst ?counts)" by (rule fold_count_step_distinct) simp
  have m: "\<And>k. map_of ?counts k = (if k \<in> set tup then Some (count_list tup k) else None)"
    by (simp add: fold_count_step_map_of dict_get_def)
  have "has_duplicates tup \<longleftrightarrow> (\<exists>c \<in> snd ` set ?counts. 1 < c)"
    by (auto simp: has_duplicates_def Let_def list_ex_iff)
  also have "\<dots> \<longleftrightarrow> (\<exists>k c. map_of ?counts k = Some c \<and> 1 < c)"
    using d by force
  also have "\<dots> \<longleftrightarrow> (\<exists>k. 1 < count_list tup k)"
    by (auto simp: m count_list_0_iff split: if_splits) (metis count_list_0_iff not_less_zero)
  also have "\<dots> \<longleftrightarrow> \<not> distinct tup"
    by (auto simp: distinct_iff_count_list not_le)
  finally show ?thesis .
qed

lemma float32_round_small: "n < 2 ^ 24 \<Longrightarrow> float32_round n = n"
  by (simp add: float32_round_def drop_count.simps)

lemma float32_round_exact: "n \<le> 2 ^ 24 \<Longrightarrow> float32_round n = n"
proof (cases "n < 2 ^ 24")
  case True
  then show ?thesis by (rule float32_round_small)
next
  case False
  assume "n \<le> 2 ^ 24"
  with False have "n = 16777216" by simp
  then show ?thesis by (simp add: float32_round_def drop_count.simps)
qed

lemma first_match_table:
  "first_match DATASET_FIELD_TYPE_CONFIG el =
     (if input_audio el then Some ''input_audio'' else None, [(el, ''input_audio'')])"
  by (simp add: DATASET_FIELD_TYPE_CONFIG_def)

lemma determine_types_table:
  "fst (determine_types data DATASET_FIELD_TYPE_CONFIG) =
     (if \<exists>el \<in> set data. \<not> input_audio el then Inl TypeError
      else Inr (replicate (length data) ''input_audio''))"
  by (induction data) (auto simp: first_match_table split: prod.splits sum.splits if_splits)

lemma data_tuple_to_kwargs_frame:
  "data_tuple_to_kwargs data t = (r, t') \<Longrightarrow>
     \<exists>fs calls. t' = t\<lparr>ds_fields := fs, trace := trace t @ map (\<lambda>(el, name). IsBearable el name) calls\<rparr>"
proof (cases "ds_fields t")
  case None
  assume a: "data_tuple_to_kwargs data t = (r, t')"
  obtain res calls where d: "determine_types data DATASET_FIELD_TYPE_CONFIG = (res, calls)"
    by (cases "determine_types data DATASET_FIELD_TYPE_CONFIG")
  show ?thesis
  proof (cases res)
    case (Inl e)
    with a None d have "t' = t\<lparr>ds_fields := None, trace := trace t @ map (\<lambda>(el, name). IsBearable el name) calls\<rparr>"
      by (auto simp: data_tuple_to_kwargs_def)
    then show ?thesis by blast
  next
    case (Inr names)
    with a None d have "t' = t\<lparr>ds_fields := Some names, trace := trace t @ map (\<lambda>(el, name). IsBearable el name) calls\<rparr>"
      by (auto simp: data_tuple_to_kwargs_def Let_def split: if_splits)
    then show ?thesis by blast
  qed
next
  case (Some names)
  assume "data_tuple_to_kwargs data t = (r, t')"
  with Some have "t' = t\<lparr>ds_fields := Some names, trace := trace t @ map (\<lambda>(el, name). IsBearable el name) []\<rparr>"
    by (auto simp: data_tuple_to_kwargs_def)
  then show ?thesis by blast
qed

lemma data_tuple_to_kwargs_audio:
  assumes "input_audio el" and "ds_fields t = None \<or> ds_fields t = Some [''input_audio'']"
  shows "\<exists>t'. data_tuple_to_kwargs [el] t = (Inr [(''input_audio'', el)], t') \<and>
               ds_fields t' = Some [''input_audio'']"
proof -
  have nd: "\<not> has_duplicates [''input_audio'']" by (simp add: has_duplicates_iff)
  from assms(2) show ?thesis
  proof
    assume "ds_fields t = None"
    with assms(1) nd show ?thesis
      by (simp add: data_tuple_to_kwargs_def first_match_table dict_of_def)
  next
    assume "ds_fields t = Some [''input_audio'']"
    then show ?thesis
      by (simp add: data_tuple_to_kwargs_def dict_of_def)
  qed
qed

lemma saved_paths_append: "saved_paths (xs @ ys) = saved_paths xs @ saved_paths ys"
  by (simp add: saved_paths_def)

lemma valid_loss_steps_append: "valid_loss_steps (xs @ ys) = valid_loss_steps xs @ valid_loss_steps ys"
  by (simp add: valid_loss_steps_def)

lemma train_loss_steps_append: "train_loss_steps (xs @ ys) = train_loss_steps xs @ train_loss_steps ys"
  by (simp add: train_loss_steps_def)

lemma callback_calls_append: "callback_calls (xs @ ys) = callback_calls xs + callback_calls ys"
  by (simp add: callback_calls_def)

lemma observers_bearable:
  "saved_paths (map (\<lambda>(el, name). IsBearable el name) calls) = []"
  "valid_loss_steps (map (\<lambda>(el, name). IsBearable el name) calls) = []"
  "train_loss_steps (map (\<lambda>(el, name). IsBearable el name) calls) = []"
  "callback_calls (map (\<lambda>(el, name). IsBearable el name) calls) = 0"
  by (induction calls) (auto simp: saved_paths_def valid_loss_steps_def train_loss_steps_def callback_calls_def)

lemma same_settings_refl: "same_settings t t"
  by (simp add: same_settings_def)

lemma same_settings_trans: "same_settings t t1 \<Longrightarrow> same_settings t1 t2 \<Longrightarrow> same_settings t t2"
  by (simp add: same_settings_def)

lemma same_outputs_refl: "same_outputs t t"
  by (simp add: same_outputs_def)

lemma same_outputs_trans: "same_outputs t t1 \<Longrightarrow> same_outputs t1 t2 \<Longrightarrow> same_outputs t t2"
  by (simp add: same_outputs_def)

lemma data_tuple_to_kwargs_same:
  assumes "data_tuple_to_kwargs data t = (r, t')"
  shows "same_settings t t' \<and> same_outputs t t' \<and> model t' = model t"
proof -
  from data_tuple_to_kwargs_frame [OF assms] obtain fs calls where
    "t' = t\<lparr>ds_fields := fs, trace := trace t @ map (\<lambda>(el, name). IsBearable el name) calls\<rparr>"
    by blast
  then show ?thesis
    by (simp add: same_settings_def same_outputs_def saved_paths_append valid_loss_steps_append
        train_loss_steps_append callback_calls_append observers_bearable)
qed

lemma next_batch_loader: "next_batch it = Some (data, it') \<Longrightarrow> loader it' = loader it"
  by (auto simp: next_batch_def split: if_splits)

lemma next_batch_audio:
  "audio_loader (loader it) \<Longrightarrow> \<exists>el it'. next_batch it = Some ([el], it') \<and> input_audio el"
proof -
  assume a: "audio_loader (loader it)"
  then have n: "0 < n_batches (loader it)" by (simp add: audio_loader_def)
  show ?thesis
  proof (cases "pos it < n_batches (loader it)")
    case True
    from a obtain el where "batch_at (loader it) (epoch it) (pos it) = [el]" "input_audio el"
      by (auto simp: audio_loader_def)
    with n True show ?thesis by (simp add: next_batch_def)
  next
    case False
    from a obtain el where "batch_at (loader it) (Suc (epoch it)) 0 = [el]" "input_audio el"
      by (auto simp: audio_loader_def)
    with n False show ?thesis by (simp add: next_batch_def)
  qed
qed

lemma accum_loop_same:
  "accum_loop env k logs t = Some (r, t') \<Longrightarrow> same_settings t t' \<and> same_outputs t t'"
proof (induction k arbitrary: logs t)
  case 0
  then show ?case by (simp add: same_settings_refl same_outputs_refl)
next
  case (Suc k)
  from Suc.prems obtain data it where nb: "next_batch (dl_iter t) = Some (data, it)"
    by (auto split: option.splits)
  obtain r1 t1 where d: "data_tuple_to_kwargs data (t\<lparr>dl_iter := it\<rparr>) = (r1, t1)"
    by (cases "data_tuple_to_kwargs data (t\<lparr>dl_iter := it\<rparr>)")
  from data_tuple_to_kwargs_same [OF d] next_batch_loader [OF nb]
  have s1: "same_settings t t1" "same_outputs t t1"
    by (simp_all add: same_settings_def same_outputs_def)
  show ?case
  proof (cases r1)
    case (Inl e)
    with Suc.prems nb d s1 show ?thesis by auto
  next
    case (Inr data_kwargs)
    show ?thesis
    proof (cases "wrapper_loss env (model t1) data_kwargs")
      case (Inl e)
      with Suc.prems nb d Inr s1 show ?thesis by auto
    next
      case (Inr loss)
      let ?t2 = "t1\<lparr>model := backward env (tensor_div env loss (grad_accum_every t1)) (model t1)\<rparr>"
      from Suc.prems nb d \<open>r1 = Inr data_kwargs\<close> Inr
      have "accum_loop env k
              (accum_log env logs [(''loss'', float_div env (item env loss) (grad_accum_every t1))])
              ?t2 = Some (r, t')"
        by simp
      from Suc.IH [OF this] have "same_settings ?t2 t'" "same_outputs ?t2 t'" by simp_all
      moreover have "same_settings t ?t2" "same_outputs t ?t2"
        using s1 by (simp_all add: same_settings_def same_outputs_def)
      ultimately show ?thesis
        by (blast intro: same_settings_trans same_outputs_trans)
    qed
  qed
qed

lemma accum_log_loss:
  "map_of (accum_log env logs [(''loss'', v)]) ''loss'' \<noteq> None"
  by (simp add: accum_log_def update_conv')

lemma ready_same:
  "ready env t \<Longrightarrow> same_settings t t' \<Longrightarrow>
     ds_fields t' = None \<or> ds_fields t' = Some [''input_audio''] \<Longrightarrow> ready env t'"
  by (simp add: ready_def same_settings_def)

lemma accum_loop_ready:
  assumes "ready env t" and "map_of logs ''loss'' \<noteq> None \<or> 0 < k"
  shows "\<exists>logs' t'. accum_loop env k logs t = Some (Inr logs', t') \<and>
           map_of logs' ''loss'' \<noteq> None \<and> ready env t'"
  using assms
proof (induction k arbitrary: logs t)
  case 0
  then show ?case by simp
next
  case (Suc k)
  from Suc.prems(1) have al: "audio_loader (loader (dl_iter t))"
    and fs: "ds_fields t = None \<or> ds_fields t = Some [''input_audio'']"
    and wr: "\<forall>m kwargs. \<exists>l. wrapper_loss env m kwargs = Inr l"
    by (simp_all add: ready_def)
  from next_batch_audio [OF al] obtain el it where
    nb: "next_batch (dl_iter t) = Some ([el], it)" and ia: "input_audio el" by blast
  from fs have "ds_fields (t\<lparr>dl_iter := it\<rparr>) = None \<or> ds_fields (t\<lparr>dl_iter := it\<rparr>) = Some [''input_audio'']"
    by simp
  from data_tuple_to_kwargs_audio [OF ia this] obtain t1 where
    d: "data_tuple_to_kwargs [el] (t\<lparr>dl_iter := it\<rparr>) = (Inr [(''input_audio'', el)], t1)"
    and f1: "ds_fields t1 = Some [''input_audio'']" by blast
  from wr obtain loss where w: "wrapper_loss env (model t1) [(''input_audio'', el)] = Inr loss"
    by blast
  let ?t2 = "t1\<lparr>model := backward env (tensor_div env loss (grad_accum_every t1)) (model t1)\<rparr>"
  let ?logs = "accum_log env logs [(''loss'', float_div env (item env loss) (grad_accum_every t1))]"
  from data_tuple_to_kwargs_same [OF d] next_batch_loader [OF nb]
  have "same_settings t ?t2" by (simp add: same_settings_def)
  with Suc.prems(1) f1 have "ready env ?t2" by (auto intro: ready_same)
  moreover have "map_of ?logs ''loss'' \<noteq> None" by (rule accum_log_loss)
  ultimately obtain logs' t' where
    "accum_loop env k ?logs ?t2 = Some (Inr logs', t')" "map_of logs' ''loss'' \<noteq> None" "ready env t'"
    using Suc.IH [of ?t2 ?logs] by blast
  with nb d w show ?case by simp
qed

lemma sample_results_block_obs:
  assumes "sample_results_block env stp t = Some (Inr u, t')"
  shows "same_settings t t' \<and>
         saved_paths (trace t') = saved_paths (trace t) \<and>
         train_loss_steps (trace t') = train_loss_steps (trace t) \<and>
         callback_calls (trace t') = callback_calls (trace t) \<and>
         valid_loss_steps (trace t') = valid_loss_steps (trace t) @
           (if is_main t \<and> py_mod (int stp) (save_results_every t) = Inr 0 then [stp] else [])"
proof (cases "is_main t \<and> py_mod (int stp) (save_results_every t) = Inr 0")
  case False
  with assms have "t' = t"
    by (auto simp: sample_results_block_def split: sum.splits if_splits)
  with False show ?thesis by (auto simp: same_settings_refl)
next
  case True
  with assms obtain data it where nb: "next_batch (valid_dl_iter t) = Some (data, it)"
    by (auto simp: sample_results_block_def split: option.splits)
  obtain r1 t1 where d: "data_tuple_to_kwargs data (t\<lparr>valid_dl_iter := it\<rparr>) = (r1, t1)"
    by (cases "data_tuple_to_kwargs data (t\<lparr>valid_dl_iter := it\<rparr>)")
  from data_tuple_to_kwargs_same [OF d] next_batch_loader [OF nb]
  have s1: "same_settings t t1" "same_outputs t t1"
    by (simp_all add: same_settings_def same_outputs_def)
  from assms True nb d obtain valid_loss where
    "t' = t1\<lparr>model := set_eval env (model t1),
             trace := trace t1 @ [PrintValidLoss stp valid_loss, LogValidLoss valid_loss stp]\<rparr>"
    by (auto simp: sample_results_block_def Let_def split: sum.splits)
  with s1 True show ?thesis
    by (simp add: same_settings_def same_outputs_def saved_paths_def train_loss_steps_def
        callback_calls_def valid_loss_steps_def)
qed

lemma sample_results_block_fields:
  assumes "sample_results_block env stp t = Some (Inr u, t')"
    and "ds_fields t = None \<or> ds_fields t = Some [''input_audio'']"
    and "audio_loader (loader (valid_dl_iter t))"
  shows "ds_fields t' = None \<or> ds_fields t' = Some [''input_audio'']"
proof (cases "is_main t \<and> py_mod (int stp) (save_results_every t) = Inr 0")
  case False
  with assms(1) have "t' = t"
    by (auto simp: sample_results_block_def split: sum.splits if_splits)
  with assms(2) show ?thesis by simp
next
  case True
  from next_batch_audio [OF assms(3)] obtain el it where
    nb: "next_batch (valid_dl_iter t) = Some ([el], it)" and ia: "input_audio el" by blast
  from assms(2) have "ds_fields (t\<lparr>valid_dl_iter := it\<rparr>) = None \<or>
      ds_fields (t\<lparr>valid_dl_iter := it\<rparr>) = Some [''input_audio'']" by simp
  from data_tuple_to_kwargs_audio [OF ia this] obtain t1 where
    d: "data_tuple_to_kwargs [el] (t\<lparr>valid_dl_iter := it\<rparr>) = (Inr [(''input_audio'', el)], t1)"
    and f1: "ds_fields t1 = Some [''input_audio'']" by blast
  from assms(1) True nb d f1 show ?thesis
    by (auto simp: sample_results_block_def Let_def split: sum.splits)
qed

lemma sample_results_block_ready:
  assumes "ready env t" and "is_main t \<longrightarrow> save_results_every t \<noteq> 0"
  shows "\<exists>t'. sample_results_block env stp t = Some (Inr (), t')"
proof (cases "is_main t \<and> py_mod (int stp) (save_results_every t) = Inr 0")
  case False
  with assms(2) show ?thesis
    by (auto simp: sample_results_block_def py_mod_def)
next
  case True
  from assms(1) have al: "audio_loader (loader (valid_dl_iter t))"
    and fs: "ds_fields t = None \<or> ds_fields t = Some [''input_audio'']"
    and wr: "\<forall>m kwargs. \<exists>l. wrapper_loss env m kwargs = Inr l"
    by (simp_all add: ready_def)
  from next_batch_audio [OF al] obtain el it where
    nb: "next_batch (valid_dl_iter t) = Some ([el], it)" and ia: "input_audio el" by blast
  from fs have "ds_fields (t\<lparr>valid_dl_iter := it\<rparr>) = None \<or>
      ds_fields (t\<lparr>valid_dl_iter := it\<rparr>) = Some [''input_audio'']" by simp
  from data_tuple_to_kwargs_audio [OF ia this] obtain t1 where
    d: "data_tuple_to_kwargs [el] (t\<lparr>valid_dl_iter := it\<rparr>) = (Inr [(''input_audio'', el)], t1)"
    by blast
  from wr obtain l where "wrapper_loss env (set_eval env (model t1)) [(''input_audio'', el)] = Inr l"
    by blast
  with True nb d show ?thesis
    by (simp add: sample_results_block_def Let_def)
qed

lemma save_model_block_obs:
  assumes "save_model_block env stp t = (Inr u, t')"
  shows "same_settings t t' \<and> ds_fields t' = ds_fields t \<and>
         valid_loss_steps (trace t') = valid_loss_steps (trace t) \<and>
         train_loss_steps (trace t') = train_loss_steps (trace t) \<and>
         callback_calls (trace t') = callback_calls (trace t) \<and>
         saved_paths (trace t') = saved_paths (trace t) @
           (if is_main t \<and> py_mod (int stp) (save_model_every t) = Inr 0
            then [PathJoin (results_folder t) (''semantic.transformer.'' @ digits stp @ ''.pt'')]
            else [])"
proof (cases "is_main t \<and> py_mod (int stp) (save_model_every t) = Inr 0")
  case False
  with assms have "t' = t"
    by (auto simp: save_model_block_def split: sum.splits if_splits)
  with False show ?thesis by (auto simp: same_settings_refl)
next
  case True
  with assms have "t' = t\<lparr>trace := trace t @
      [TorchSave (PathJoin (results_folder t) (''semantic.transformer.'' @ digits stp @ ''.pt''))
         (state_dict env (model t)),
       PrintSaving stp (results_folder t)]\<rparr>"
    by (auto simp: save_model_block_def Let_def)
  with True show ?thesis
    by (simp add: same_settings_def saved_paths_def train_loss_steps_def
        callback_calls_def valid_loss_steps_def)
qed

lemma save_model_block_ready:
  "is_main t \<longrightarrow> save_model_every t \<noteq> 0 \<Longrightarrow> \<exists>t'. save_model_block env stp t = (Inr (), t')"
  by (auto simp: save_model_block_def py_mod_def Let_def)

lemma train_step_returns:
  assumes "train_step env t = Some (Inr logs, t')"
  shows "\<exists>t1 l t4 t5 u u'.
      accum_loop env (nat (grad_accum_every t)) [] (t\<lparr>model := set_train env (model t)\<rparr>)
        = Some (Inr logs, t1) \<and>
      map_of logs ''loss'' = Some l \<and>
      sample_results_block env (steps t)
        (t1\<lparr>model := zero_grad env (optim_step env
                 (case max_grad_norm t1 of None \<Rightarrow> model t1
                  | Some g \<Rightarrow> clip_grad_norm env g (model t1))),
            trace := trace t1 @ [PrintLoss (steps t) l, LogTrainLoss l (steps t)]\<rparr>)
        = Some (Inr u, t4) \<and>
      save_model_block env (steps t) t4 = (Inr u', t5) \<and>
      t' = t5\<lparr>steps := float32_round (steps t5 + 1)\<rparr>"
  using assms
  by (auto simp: train_step_def Let_def split: option.splits sum.splits prod.splits)

lemma train_step_obs:
  assumes "train_step env t = Some (Inr logs, t')"
  shows "same_settings t (t'\<lparr>steps := steps t\<rparr>) \<and>
         steps t' = float32_round (steps t + 1) \<and>
         train_loss_steps (trace t') = train_loss_steps (trace t) @ [steps t] \<and>
         callback_calls (trace t') = callback_calls (trace t) \<and>
         valid_loss_steps (trace t') = valid_loss_steps (trace t) @
           (if is_main t \<and> py_mod (int (steps t)) (save_results_every t) = Inr 0
            then [steps t] else []) \<and>
         saved_paths (trace t') = saved_paths (trace t) @
           (if is_main t \<and> py_mod (int (steps t)) (save_model_every t) = Inr 0
            then [PathJoin (results_folder t)
                    (''semantic.transformer.'' @ digits (steps t) @ ''.pt'')]
            else [])"
proof -
  let ?t0 = "t\<lparr>model := set_train env (model t)\<rparr>"
  from train_step_returns [OF assms] obtain t1 l t4 t5 u u' where
    a: "accum_loop env (nat (grad_accum_every t)) [] ?t0 = Some (Inr logs, t1)"
    and s: "sample_results_block env (steps t)
        (t1\<lparr>model := zero_grad env (optim_step env
                 (case max_grad_norm t1 of None \<Rightarrow> model t1
                  | Some g \<Rightarrow> clip_grad_norm env g (model t1))),
            trace := trace t1 @ [PrintLoss (steps t) l, LogTrainLoss l (steps t)]\<rparr>)
        = Some (Inr u, t4)"
    and m: "save_model_block env (steps t) t4 = (Inr u', t5)"
    and t': "t' = t5\<lparr>steps := float32_round (steps t5 + 1)\<rparr>"
    by blast
  let ?t3 = "t1\<lparr>model := zero_grad env (optim_step env
                 (case max_grad_norm t1 of None \<Rightarrow> model t1
                  | Some g \<Rightarrow> clip_grad_norm env g (model t1))),
            trace := trace t1 @ [PrintLoss (steps t) l, LogTrainLoss l (steps t)]\<rparr>"
  from accum_loop_same [OF a] have a1: "same_settings t t1" "same_outputs t t1"
    by (simp_all add: same_settings_def same_outputs_def)
  then have a3: "same_settings t ?t3"
    "saved_paths (trace ?t3) = saved_paths (trace t)"
    "valid_loss_steps (trace ?t3) = valid_loss_steps (trace t)"
    "callback_calls (trace ?t3) = callback_calls (trace t)"
    "train_loss_steps (trace ?t3) = train_loss_steps (trace t) @ [steps t]"
    by (simp_all add: same_settings_def same_outputs_def saved_paths_def valid_loss_steps_def
        callback_calls_def train_loss_steps_def)
  note b = sample_results_block_obs [OF s]
  note c = save_model_block_obs [OF m]
  from a3(1) b have s4: "same_settings t t4" by (blast intro: same_settings_trans)
  with c have s5: "same_settings t t5" by (blast intro: same_settings_trans)
  have main3: "is_main ?t3 = is_main t" "save_results_every ?t3 = save_results_every t"
    using a3(1) by (simp_all add: same_settings_def)
  have main4: "is_main t4 = is_main t" "save_model_every t4 = save_model_every t"
    "results_folder t4 = results_folder t"
    using s4 by (simp_all add: same_settings_def)
  have st: "steps t5 = steps t" using s5 by (simp add: same_settings_def)
  show ?thesis
  proof (intro conjI)
    show "same_settings t (t'\<lparr>steps := steps t\<rparr>)"
      using s5 t' by (simp add: same_settings_def)
    show "steps t' = float32_round (steps t + 1)" using t' st by simp
    show "train_loss_steps (trace t') = train_loss_steps (trace t) @ [steps t]"
      using t' a3 b c by simp
    show "callback_calls (trace t') = callback_calls (trace t)"
      using t' a3 b c by simp
    show "valid_loss_steps (trace t') = valid_loss_steps (trace t) @
           (if is_main t \<and> py_mod (int (steps t)) (save_results_every t) = Inr 0
            then [steps t] else [])"
      using t' a3 b c main3 by simp
    show "saved_paths (trace t') = saved_paths (trace t) @
           (if is_main t \<and> py_mod (int (steps t)) (save_model_every t) = Inr 0
            then [PathJoin (results_folder t)
                    (''semantic.transformer.'' @ digits (steps t) @ ''.pt'')]
            else [])"
      using t' a3 b c main4 by simp
  qed
qed

lemma train_step_ready:
  assumes "ready env t" and "is_main t \<longrightarrow> save_results_every t \<noteq> 0 \<and> save_model_every t \<noteq> 0"
  shows "\<exists>logs t'. train_step env t = Some (Inr logs, t') \<and> ready env t'"
proof -
  let ?t0 = "t\<lparr>model := set_train env (model t)\<rparr>"
  have r0: "ready env ?t0" using assms(1) by (simp add: ready_def)
  from assms(1) have "0 < nat (grad_accum_every ?t0)" by (simp add: ready_def)
  with accum_loop_ready [OF r0, of "[]" "nat (grad_accum_every ?t0)"] obtain logs t1 where
    a: "accum_loop env (nat (grad_accum_every ?t0)) [] ?t0 = Some (Inr logs, t1)"
    and l: "map_of logs ''loss'' \<noteq> None" and r1: "ready env t1"
    by blast
  from l obtain lv where lv: "map_of logs ''loss'' = Some lv" by blast
  let ?t3 = "t1\<lparr>model := zero_grad env (optim_step env
                 (case max_grad_norm t1 of None \<Rightarrow> model t1
                  | Some g \<Rightarrow> clip_grad_norm env g (model t1))),
            trace := trace t1 @ [PrintLoss (steps t) lv, LogTrainLoss lv (steps t)]\<rparr>"
  from accum_loop_same [OF a] have s1: "same_settings t t1" by (simp add: same_settings_def)
  then have s3: "same_settings t ?t3" by (simp add: same_settings_def)
  have r3: "ready env ?t3" using r1 by (simp add: ready_def)
  from s3 assms(2) have "is_main ?t3 \<longrightarrow> save_results_every ?t3 \<noteq> 0"
    by (simp add: same_settings_def)
  from sample_results_block_ready [OF r3 this, of "steps t"] obtain t4 where
    s: "sample_results_block env (steps t) ?t3 = Some (Inr (), t4)" by blast
  from sample_results_block_obs [OF s] s3 have s4: "same_settings t t4"
    by (blast intro: same_settings_trans)
  from r3 have "ds_fields ?t3 = None \<or> ds_fields ?t3 = Some [''input_audio'']"
    "audio_loader (loader (valid_dl_iter ?t3))" by (simp_all add: ready_def)
  from sample_results_block_fields [OF s this]
  have f4: "ds_fields t4 = None \<or> ds_fields t4 = Some [''input_audio'']" .
  from s4 assms(2) have "is_main t4 \<longrightarrow> save_model_every t4 \<noteq> 0"
    by (simp add: same_settings_def)
  from save_model_block_ready [OF this, of env "steps t"] obtain t5 where
    m: "save_model_block env (steps t) t4 = (Inr (), t5)" by blast
  from save_model_block_obs [OF m] s4 f4
  have s5: "same_settings t t5" and f5: "ds_fields t5 = None \<or> ds_fields t5 = Some [''input_audio'']"
    by (auto intro: same_settings_trans)
  let ?t' = "t5\<lparr>steps := float32_round (steps t5 + 1)\<rparr>"
  have "ready env ?t'" using assms(1) s5 f5 by (simp add: ready_def same_settings_def)
  moreover have "train_step env t = Some (Inr logs, ?t')"
    using a lv s m by (simp add: train_step_def Let_def)
  ultimately show ?thesis by blast
qed

lemma float32_of_int_small: "0 \<le> i \<Longrightarrow> i < 2 ^ 24 \<Longrightarrow> float32_of_int i = i"
  by (simp add: float32_of_int_def float32_round_small)

lemma train_step_increments:
  "train_step env t = Some (Inr logs, t') \<Longrightarrow> steps t < 2 ^ 24 \<Longrightarrow> steps t' = steps t + 1"
  using train_step_obs [of env t logs t'] by (simp add: float32_round_exact)

lemma train_step_saturates:
  "train_step env t = Some (Inr logs, t') \<Longrightarrow> steps t = 2 ^ 24 \<Longrightarrow> steps t' = steps t"
  using train_step_obs [of env t logs t'] by (simp add: float32_round_def drop_count.simps)

lemma demo_ready: "ready demo_env (demo_trainer\<lparr>train_wrapper := w, steps := k\<rparr>)"
  by (simp add: ready_def demo_trainer_def demo_env_def cycle_def audio_loader_def demo_loader_def
      input_audio_def)

lemma demo_constructed:
  "fst (SingleStageTrainer demo_lib (demo_args\<lparr>arg_stage := ''coarse''\<rparr>) demo_world)
     = Inr (demo_trainer\<lparr>train_wrapper := CoarseStage\<rparr>)"
  "fst (SingleStageTrainer demo_lib demo_args demo_world) = Inr demo_trainer"
  by (simp_all add: SingleStageTrainer_def SingleStageTrainer_init_def select_wrapper_def exists_def
      create_dataset_def split_for_validation_def demo_args_def demo_lib_def demo_world_def
      emit_def alloc_def ds_len_def Let_def prepare_results_folder_def demo_trainer_def
      float32_round_small)

lemma train_iterate:
  assumes "ready env t" and "is_main t" and "num_train_steps t = 5"
    and "save_model_every t = 2" and "save_results_every t = 2" and "steps t < 5"
  shows "\<exists>t1. train env t = train env t1 \<and> ready env t1 \<and> is_main t1 \<and>
           num_train_steps t1 = 5 \<and> save_model_every t1 = 2 \<and> save_results_every t1 = 2 \<and>
           results_folder t1 = results_folder t \<and> steps t1 = steps t + 1 \<and>
           train_loss_steps (trace t1) = train_loss_steps (trace t) @ [steps t] \<and>
           callback_calls (trace t1) = callback_calls (trace t) + 1 \<and>
           valid_loss_steps (trace t1) = valid_loss_steps (trace t) @
             (if even (steps t) then [steps t] else []) \<and>
           saved_paths (trace t1) = saved_paths (trace t) @
             (if even (steps t)
              then [PathJoin (results_folder t) (''semantic.transformer.'' @ digits (steps t) @ ''.pt'')]
              else [])"
proof -
  from assms have "is_main t \<longrightarrow> save_results_every t \<noteq> 0 \<and> save_model_every t \<noteq> 0" by simp
  from train_step_ready [OF assms(1) this] obtain logs t' where
    ts: "train_step env t = Some (Inr logs, t')" and r': "ready env t'" by blast
  note o = train_step_obs [OF ts]
  let ?t1 = "t'\<lparr>trace := trace t' @ [LogFn logs]\<rparr>"
  have md: "py_mod (int (steps t)) 2 = Inr 0 \<longleftrightarrow> even (steps t)"
    by (simp add: py_mod_def) presburger
  have lt: "int (steps t) < float32_of_int (num_train_steps t)"
    using assms(3,6) by (simp add: float32_of_int_small)
  have "train env t = train env ?t1"
    using lt ts assms(3) by (subst train.simps) simp
  moreover have "ready env ?t1" using r' by (simp add: ready_def)
  moreover have "is_main ?t1" "num_train_steps ?t1 = 5" "save_model_every ?t1 = 2"
    "save_results_every ?t1 = 2" "results_folder ?t1 = results_folder t"
    using o assms by (simp_all add: same_settings_def)
  moreover have "steps ?t1 = steps t + 1"
    using o assms(6) by (simp add: float32_round_small)
  moreover have "train_loss_steps (trace ?t1) = train_loss_steps (trace t) @ [steps t]"
    using o by (simp add: train_loss_steps_append) (simp add: train_loss_steps_def)
  moreover have "callback_calls (trace ?t1) = callback_calls (trace t) + 1"
    using o by (simp add: callback_calls_append) (simp add: callback_calls_def)
  moreover have "valid_loss_steps (trace ?t1) = valid_loss_steps (trace t) @
             (if even (steps t) then [steps t] else [])"
    using o assms(2,5) md by (simp add: valid_loss_steps_append) (simp add: valid_loss_steps_def)
  moreover have "saved_paths (trace ?t1) = saved_paths (trace t) @
             (if even (steps t)
              then [PathJoin (results_folder t) (''semantic.transformer.'' @ digits (steps t) @ ''.pt'')]
              else [])"
    using o assms(2,4) md by (simp add: saved_paths_append) (simp add: saved_paths_def)
  ultimately show ?thesis by blast
qed

lemma train_finished:
  "num_train_steps t = 5 \<Longrightarrow> steps t = 5 \<Longrightarrow>
     train env t = Some (Inr (), t\<lparr>trace := trace t @ [PrintTrainingComplete]\<rparr>)"
  by (subst train.simps) (simp add: float32_of_int_small)

lemma emit_fields [simp]:
  "heap (emit evs w) = heap w" "next_ref (emit evs w) = next_ref w"
  "folder_len (emit evs w) = folder_len w" "ds_len (emit evs w) r = ds_len w r"
  by (simp_all add: emit_def ds_len_def split: dataset_obj.splits)

lemma heap_prepare_results_folder [simp]:
  "heap (prepare_results_folder folder w) = heap w"
  by (simp add: prepare_results_folder_def yes_or_no_def Let_def split: prod.splits)















section \<open>Training steps\<close>

text \<open>
  Claim C1, as stated: the snapshot of a stage is named after that stage.  The session
  built for the stage \<open>coarse\<close> writes, in its first step, the file
  \<^verbatim>\<open>semantic.transformer.0.pt\<close> and no file \<^verbatim>\<open>coarse.transformer.0.pt\<close>.
\<close>

theorem coarse_snapshot_named_semantic:
  "first_step_files ''coarse'' = Some [PathJoin ''./results'' ''semantic.transformer.0.pt''] \<and>
   first_step_files ''coarse'' \<noteq> Some [PathJoin ''./results'' ''coarse.transformer.0.pt'']"
proof -
  let ?t = "demo_trainer\<lparr>train_wrapper := CoarseStage, steps := 0\<rparr>"
  have "is_main ?t \<longrightarrow> save_results_every ?t \<noteq> 0 \<and> save_model_every ?t \<noteq> 0"
    by (simp add: demo_trainer_def)
  from train_step_ready [OF demo_ready this] obtain logs t' where
    ts: "train_step demo_env ?t = Some (Inr logs, t')" by blast
  from train_step_obs [OF ts]
  have "saved_paths (trace t') = [PathJoin ''./results'' ''semantic.transformer.0.pt'']"
    by (simp add: demo_trainer_def py_mod_def digits.simps saved_paths_def)
  moreover have "?t = demo_trainer\<lparr>train_wrapper := CoarseStage\<rparr>"
    by (simp add: demo_trainer_def)
  ultimately show ?thesis
    using ts by (simp add: first_step_files_def demo_constructed)
qed

text \<open>
  Claim C1, amended: whatever the stage wrapper of the session, a step that returns
  writes one snapshot if it runs on the primary process and its step number is a
  multiple of \<open>save_model_every\<close>, and none otherwise; the file lies under the results folder
  and its name is \<^verbatim>\<open>semantic.transformer.\<close>, the step number in decimal, \<^verbatim>\<open>.pt\<close>.
\<close>

theorem snapshot_file_name:
  assumes "train_step env t = Some (Inr logs, t')"
  shows "saved_paths (trace t') = saved_paths (trace t) @
           (if is_main t \<and> py_mod (int (steps t)) (save_model_every t) = Inr 0
            then [PathJoin (results_folder t)
                    (''semantic.transformer.'' @ digits (steps t) @ ''.pt'')]
            else [])"
  using train_step_obs [OF assms] by blast

text \<open>The amended claim C1 on a session of the stage \<open>fine\<close> at step four.\<close>

theorem snapshot_file_name_witness:
  "\<exists>logs t'. train_step demo_env (demo_trainer\<lparr>train_wrapper := FineStage, steps := 4\<rparr>)
                = Some (Inr logs, t') \<and>
             saved_paths (trace t') = [PathJoin ''./results'' ''semantic.transformer.4.pt'']"
proof -
  let ?t = "demo_trainer\<lparr>train_wrapper := FineStage, steps := 4\<rparr>"
  have "is_main ?t \<longrightarrow> save_results_every ?t \<noteq> 0 \<and> save_model_every ?t \<noteq> 0"
    by (simp add: demo_trainer_def)
  from train_step_ready [OF demo_ready this] obtain logs t' where
    ts: "train_step demo_env ?t = Some (Inr logs, t')" by blast
  from snapshot_file_name [OF ts]
  have "saved_paths (trace t') = [PathJoin ''./results'' ''semantic.transformer.4.pt'']"
    by (simp add: demo_trainer_def py_mod_def digits.simps saved_paths_def)
  with ts show ?thesis by blast
qed

text \<open>
  Claim C2: a session on the primary process with the counter at zero, five steps to
  run, and snapshots and validation every second step, whose loaders yield audio batches
  and whose wrapper returns losses, returns from \<^verbatim>\<open>train\<close> with the counter at five,
  after five steps (one training loss logged at each of the steps 0 to 4, five calls of
  the callback), having written the snapshots of the steps 0, 2 and 4 and no other file
  and logged a validation loss at the steps 0, 2 and 4 and at no other.
\<close>

theorem five_step_run:
  assumes "ready env t" and "is_main t" and "steps t = 0" and "num_train_steps t = 5"
    and "save_model_every t = 2" and "save_results_every t = 2"
  shows "\<exists>t'. train env t = Some (Inr (), t') \<and> steps t' = 5 \<and>
           train_loss_steps (trace t') = train_loss_steps (trace t) @ [0, 1, 2, 3, 4] \<and>
           callback_calls (trace t') = callback_calls (trace t) + 5 \<and>
           saved_paths (trace t') = saved_paths (trace t) @
             [PathJoin (results_folder t) ''semantic.transformer.0.pt'',
              PathJoin (results_folder t) ''semantic.transformer.2.pt'',
              PathJoin (results_folder t) ''semantic.transformer.4.pt''] \<and>
           valid_loss_steps (trace t') = valid_loss_steps (trace t) @ [0, 2, 4]"
proof -
  from train_iterate [OF assms(1,2,4,5,6)] assms(3) obtain t1 where
    1: "train env t = train env t1" "ready env t1" "is_main t1" "num_train_steps t1 = 5"
       "save_model_every t1 = 2" "save_results_every t1 = 2"
       "results_folder t1 = results_folder t" "steps t1 = 1"
       "train_loss_steps (trace t1) = train_loss_steps (trace t) @ [0]"
       "callback_calls (trace t1) = callback_calls (trace t) + 1"
       "valid_loss_steps (trace t1) = valid_loss_steps (trace t) @ [0]"
       "saved_paths (trace t1) = saved_paths (trace t) @
          [PathJoin (results_folder t) ''semantic.transformer.0.pt'']"
    by (auto simp: digits.simps)
  from train_iterate [OF 1(2,3,4,5,6)] 1 obtain t2 where
    2: "train env t = train env t2" "ready env t2" "is_main t2" "num_train_steps t2 = 5"
       "save_model_every t2 = 2" "save_results_every t2 = 2"
       "results_folder t2 = results_folder t" "steps t2 = 2"
       "train_loss_steps (trace t2) = train_loss_steps (trace t) @ [0, 1]"
       "callback_calls (trace t2) = callback_calls (trace t) + 2"
       "valid_loss_steps (trace t2) = valid_loss_steps (trace t) @ [0]"
       "saved_paths (trace t2) = saved_paths (trace t) @
          [PathJoin (results_folder t) ''semantic.transformer.0.pt'']"
    by (auto simp: digits.simps)
  from train_iterate [OF 2(2,3,4,5,6)] 2 obtain t3 where
    3: "train env t = train env t3" "ready env t3" "is_main t3" "num_train_steps t3 = 5"
       "save_model_every t3 = 2" "save_results_every t3 = 2"
       "results_folder t3 = results_folder t" "steps t3 = 3"
       "train_loss_steps (trace t3) = train_loss_steps (trace t) @ [0, 1, 2]"
       "callback_calls (trace t3) = callback_calls (trace t) + 3"
       "valid_loss_steps (trace t3) = valid_loss_steps (trace t) @ [0, 2]"
       "saved_paths (trace t3) = saved_paths (trace t) @
          [PathJoin (results_folder t) ''semantic.transformer.0.pt'',
           PathJoin (results_folder t) ''semantic.transformer.2.pt'']"
    by (auto simp: digits.simps)
  from train_iterate [OF 3(2,3,4,5,6)] 3 obtain t4 where
    4: "train env t = train env t4" "ready env t4" "is_main t4" "num_train_steps t4 = 5"
       "save_model_every t4 = 2" "save_results_every t4 = 2"
       "results_folder t4 = results_folder t" "steps t4 = 4"
       "train_loss_steps (trace t4) = train_loss_steps (trace t) @ [0, 1, 2, 3]"
       "callback_calls (trace t4) = callback_calls (trace t) + 4"
       "valid_loss_steps (trace t4) = valid_loss_steps (trace t) @ [0, 2]"
       "saved_paths (trace t4) = saved_paths (trace t) @
          [PathJoin (results_folder t) ''semantic.transformer.0.pt'',
           PathJoin (results_folder t) ''semantic.transformer.2.pt'']"
    by (auto simp: digits.simps)
  from train_iterate [OF 4(2,3,4,5,6)] 4 obtain t5 where
    5: "train env t = train env t5" "num_train_steps t5 = 5" "steps t5 = 5"
       "train_loss_steps (trace t5) = train_loss_steps (trace t) @ [0, 1, 2, 3, 4]"
       "callback_calls (trace t5) = callback_calls (trace t) + 5"
       "valid_loss_steps (trace t5) = valid_loss_steps (trace t) @ [0, 2, 4]"
       "saved_paths (trace t5) = saved_paths (trace t) @
          [PathJoin (results_folder t) ''semantic.transformer.0.pt'',
           PathJoin (results_folder t) ''semantic.transformer.2.pt'',
           PathJoin (results_folder t) ''semantic.transformer.4.pt'']"
    by (auto simp: digits.simps)
  let ?t' = "t5\<lparr>trace := trace t5 @ [PrintTrainingComplete]\<rparr>"
  have "train env t = Some (Inr (), ?t')"
    using 5(1) train_finished [OF 5(2,3)] by simp
  moreover have "steps ?t' = 5" using 5 by simp
  moreover have "train_loss_steps (trace ?t') = train_loss_steps (trace t) @ [0, 1, 2, 3, 4]"
    using 5 by (simp add: train_loss_steps_append) (simp add: train_loss_steps_def)
  moreover have "callback_calls (trace ?t') = callback_calls (trace t) + 5"
    using 5 by (simp add: callback_calls_append) (simp add: callback_calls_def)
  moreover have "valid_loss_steps (trace ?t') = valid_loss_steps (trace t) @ [0, 2, 4]"
    using 5 by (simp add: valid_loss_steps_append) (simp add: valid_loss_steps_def)
  moreover have "saved_paths (trace ?t') = saved_paths (trace t) @
          [PathJoin (results_folder t) ''semantic.transformer.0.pt'',
           PathJoin (results_folder t) ''semantic.transformer.2.pt'',
           PathJoin (results_folder t) ''semantic.transformer.4.pt'']"
    using 5 by (simp add: saved_paths_append) (simp add: saved_paths_def)
  ultimately show ?thesis by blast
qed

text \<open>Claim C2 on the small session, which is the one the constructor builds.\<close>

theorem five_step_run_witness:
  "fst (SingleStageTrainer demo_lib demo_args demo_world) = Inr demo_trainer \<and>
   (\<exists>t'. train demo_env demo_trainer = Some (Inr (), t') \<and> steps t' = 5 \<and>
      train_loss_steps (trace t') = [0, 1, 2, 3, 4] \<and>
      callback_calls (trace t') = 5 \<and>
      saved_paths (trace t') =
        [PathJoin ''./results'' ''semantic.transformer.0.pt'',
         PathJoin ''./results'' ''semantic.transformer.2.pt'',
         PathJoin ''./results'' ''semantic.transformer.4.pt''] \<and>
      valid_loss_steps (trace t') = [0, 2, 4])"
proof -
  have r: "ready demo_env demo_trainer"
    using demo_ready [where w = SemanticStage and k = 0] by (simp add: demo_trainer_def)
  have c: "is_main demo_trainer" "steps demo_trainer = 0" "num_train_steps demo_trainer = 5"
    "save_model_every demo_trainer = 2" "save_results_every demo_trainer = 2"
    by (simp_all add: demo_trainer_def)
  from five_step_run [OF r c] show ?thesis
    by (simp add: demo_constructed)
       (simp add: demo_trainer_def train_loss_steps_def callback_calls_def saved_paths_def
          valid_loss_steps_def)
qed

text \<open>
  Claim C4 says that every step adds one to the counter.  A step of the small session
  whose counter holds 16777216 returns its log mapping, without an error, and the counter
  still holds 16777216: the sum 16777217 is not a 32-bit float, and the buffer keeps the
  nearest one.
\<close>

theorem counter_stuck_at_two_to_24:
  "map_option (\<lambda>(r, t'). (isl r, steps t'))
     (train_step demo_env (demo_trainer\<lparr>steps := 16777216\<rparr>))
     = Some (False, 16777216)"
proof -
  let ?t = "demo_trainer\<lparr>train_wrapper := SemanticStage, steps := 16777216\<rparr>"
  have "is_main ?t \<longrightarrow> save_results_every ?t \<noteq> 0 \<and> save_model_every ?t \<noteq> 0"
    by (simp add: demo_trainer_def)
  from train_step_ready [OF demo_ready this] obtain logs t' where
    ts: "train_step demo_env ?t = Some (Inr logs, t')" by blast
  have "steps ?t = 2 ^ 24" by simp
  from train_step_saturates [OF ts this] have "steps t' = 16777216" by simp
  moreover have "?t = demo_trainer\<lparr>steps := 16777216\<rparr>" by (simp add: demo_trainer_def)
  ultimately show ?thesis using ts by simp
qed




section \<open>Construction: stage selection and preconditions\<close>

text \<open>
  Claim C5, as stated: a stage outside the enumeration fails with a value error.  The
  constructor called with the stage \<open>''medium''\<close> fails, but with the violation that the
  decorator raises, not with a value error.
\<close>

theorem invalid_stage_rejected_by_decorator:
  "fst (SingleStageTrainer demo_lib (demo_args\<lparr>arg_stage := ''medium''\<rparr>) demo_world
         :: (error + (nat, rat, rat, nat) trainer) \<times> world)
     = Inl BeartypeCallHintParamViolation \<and>
   fst (SingleStageTrainer demo_lib (demo_args\<lparr>arg_stage := ''medium''\<rparr>) demo_world
         :: (error + (nat, rat, rat, nat) trainer) \<times> world)
     \<noteq> Inl ValueError"
  by (simp add: SingleStageTrainer_def demo_args_def)

text \<open>
  Claim C5, amended: a constructor call with a stage outside \<open>semantic\<close>, \<open>coarse\<close>, \<open>fine\<close>
  fails before the body runs, with the decorator's parameter violation and with nothing
  done to the surroundings; the value error is what the body alone raises on such a
  stage, once the harness object is made.
\<close>

theorem invalid_stage_fails:
  assumes "arg_stage a \<notin> {''semantic'', ''coarse'', ''fine''}"
  shows "SingleStageTrainer lb a w = (Inl BeartypeCallHintParamViolation, w) \<and>
         SingleStageTrainer_init lb a w = (Inl ValueError, emit [AcceleratorInit] w)"
  using assms by (simp add: SingleStageTrainer_def SingleStageTrainer_init_def select_wrapper_def)

text \<open>The amended claim C5 at the stage \<open>''medium''\<close>.\<close>

theorem invalid_stage_fails_witness:
  "(SingleStageTrainer demo_lib (demo_args\<lparr>arg_stage := ''medium''\<rparr>) demo_world
      :: (error + (nat, rat, rat, nat) trainer) \<times> world)
     = (Inl BeartypeCallHintParamViolation, demo_world) \<and>
   (SingleStageTrainer_init demo_lib (demo_args\<lparr>arg_stage := ''medium''\<rparr>) demo_world
      :: (error + (nat, rat, rat, nat) trainer) \<times> world)
     = (Inl ValueError, emit [AcceleratorInit] demo_world)"
proof -
  have h: "arg_stage (demo_args\<lparr>arg_stage := ''medium''\<rparr>) \<notin> {''semantic'', ''coarse'', ''fine''}"
    by simp
  from invalid_stage_fails [OF h] show ?thesis by blast
qed

text \<open>
  Claim C6: constructing the stage \<open>semantic\<close> without an audio conditioner fails with an
  assertion error, and all that has happened by then is the creation of the harness
  object: no dataset is in the store, no loader was asked for, no event of the dataset
  blocks is recorded.
\<close>

theorem semantic_without_conditioner_fails_early:
  assumes "arg_stage a = ''semantic''" and "arg_audio_conditioner a = None"
  shows "SingleStageTrainer lb a w = (Inl AssertionError, emit [AcceleratorInit] w)"
  using assms
  by (simp add: SingleStageTrainer_def SingleStageTrainer_init_def select_wrapper_def exists_def)

text \<open>Claim C6 on the small session with the audio conditioner taken away.\<close>

theorem semantic_without_conditioner_fails_early_witness:
  "(SingleStageTrainer demo_lib (demo_args\<lparr>arg_audio_conditioner := None\<rparr>) demo_world
      :: (error + (nat, rat, rat, nat) trainer) \<times> world)
     = (Inl AssertionError, demo_world\<lparr>events := [AcceleratorInit]\<rparr>)"
proof -
  have 1: "arg_stage (demo_args\<lparr>arg_audio_conditioner := None\<rparr>) = ''semantic''"
    by (simp add: demo_args_def)
  have 2: "arg_audio_conditioner (demo_args\<lparr>arg_audio_conditioner := None\<rparr>) = None"
    by simp
  from semantic_without_conditioner_fails_early [OF 1 2, of demo_lib demo_world] show ?thesis
    by (simp add: emit_def demo_world_def)
qed

section \<open>The validation split\<close>



section \<open>Field mapping\<close>

text \<open>
  Claim C7: once the field names are cached, mapping any batch returns the batch zipped
  with the cached names and leaves the whole session as it is: the cached names are the
  same and the trace has no new predicate call.
\<close>

theorem cached_mapping_reused:
  "ds_fields t = Some names \<Longrightarrow>
     data_tuple_to_kwargs data t = (Inr (dict_of (zip names data)), t)"
  by (simp add: data_tuple_to_kwargs_def)

text \<open>
  Claim C7 on two batches in a row: the first infers the names with one predicate call,
  the second reuses them and changes nothing.
\<close>

theorem cached_mapping_reused_witness:
  "ds_fields (snd (data_tuple_to_kwargs [Tensor Float32 2] demo_trainer)) = Some [''input_audio''] \<and>
   predicate_calls (trace (snd (data_tuple_to_kwargs [Tensor Float32 2] demo_trainer)))
     = [(Tensor Float32 2, ''input_audio'')] \<and>
   data_tuple_to_kwargs [Tensor Float32 3] (snd (data_tuple_to_kwargs [Tensor Float32 2] demo_trainer))
     = (Inr [(''input_audio'', Tensor Float32 3)],
        snd (data_tuple_to_kwargs [Tensor Float32 2] demo_trainer))"
proof -
  let ?t1 = "snd (data_tuple_to_kwargs [Tensor Float32 2] demo_trainer)"
  have nd: "\<not> has_duplicates [''input_audio'']" by (simp add: has_duplicates_iff)
  have f: "ds_fields ?t1 = Some [''input_audio'']"
    using nd by (simp add: data_tuple_to_kwargs_def first_match_table input_audio_def demo_trainer_def)
  have c: "predicate_calls (trace ?t1) = [(Tensor Float32 2, ''input_audio'')]"
    using nd by (simp add: data_tuple_to_kwargs_def first_match_table input_audio_def
        demo_trainer_def predicate_calls_def)
  from cached_mapping_reused [OF f, of "[Tensor Float32 3]"] f c show ?thesis
    by (simp add: dict_of_def)
qed

text \<open>
  Claim C8: when the field names are being inferred and some element of the batch
  satisfies no predicate of the table, the mapping fails with a type error and no names
  are cached.
\<close>

theorem unclassifiable_element_type_error:
  assumes "ds_fields t = None"
    and "el \<in> set data"
    and "\<forall>(name, data_type) \<in> set DATASET_FIELD_TYPE_CONFIG. \<not> data_type el"
  shows "fst (data_tuple_to_kwargs data t) = Inl TypeError \<and>
         ds_fields (snd (data_tuple_to_kwargs data t)) = None"
proof -
  from assms(3) have "\<not> input_audio el" by (simp add: DATASET_FIELD_TYPE_CONFIG_def)
  with assms(2) have "fst (determine_types data DATASET_FIELD_TYPE_CONFIG) = Inl TypeError"
    by (auto simp: determine_types_table)
  then obtain calls where "determine_types data DATASET_FIELD_TYPE_CONFIG = (Inl TypeError, calls)"
    by (cases "determine_types data DATASET_FIELD_TYPE_CONFIG") simp
  with assms(1) show ?thesis by (simp add: data_tuple_to_kwargs_def)
qed

text \<open>Claim C8 on a batch whose second element is a tensor of integers.\<close>

theorem unclassifiable_element_type_error_witness:
  "fst (data_tuple_to_kwargs [Tensor Float32 2, Tensor Int64 2] demo_trainer) = Inl TypeError \<and>
   ds_fields (snd (data_tuple_to_kwargs [Tensor Float32 2, Tensor Int64 2] demo_trainer)) = None"
proof -
  have 1: "ds_fields demo_trainer = None" by (simp add: demo_trainer_def)
  have 2: "Tensor Int64 2 \<in> set [Tensor Float32 2, Tensor Int64 2]" by simp
  have 3: "\<forall>(name, data_type) \<in> set DATASET_FIELD_TYPE_CONFIG. \<not> data_type (Tensor Int64 2)"
    by (simp add: DATASET_FIELD_TYPE_CONFIG_def input_audio_def)
  from unclassifiable_element_type_error [OF 1 2 3] show ?thesis .
qed

text \<open>
  Claim C10, as stated: the mapping succeeds only for tuples of exactly one element.  The
  empty tuple is mapped, to the empty dictionary.
\<close>

theorem empty_tuple_maps:
  "fst (data_tuple_to_kwargs [] demo_trainer) = Inr [] \<and> length ([] :: batch_el list) \<noteq> 1"
  by (simp add: data_tuple_to_kwargs_def demo_trainer_def has_duplicates_def dict_of_def)

text \<open>
  Claim C10, amended: on first use, every batch of two or more elements fails, with a
  type error if some element satisfies no predicate and with the assertion on duplicate
  names otherwise; the mapping succeeds exactly for the empty tuple and for a tuple of
  one audio tensor.
\<close>

theorem longer_tuples_fail:
  assumes "ds_fields t = None"
  shows "(2 \<le> length data \<longrightarrow>
            fst (data_tuple_to_kwargs data t) =
              (if \<exists>el \<in> set data. \<not> input_audio el then Inl TypeError else Inl AssertionError)) \<and>
         ((\<exists>kwargs. fst (data_tuple_to_kwargs data t) = Inr kwargs) \<longleftrightarrow>
            data = [] \<or> (\<exists>el. data = [el] \<and> input_audio el))"
proof -
  obtain res calls where d: "determine_types data DATASET_FIELD_TYPE_CONFIG = (res, calls)"
    by (cases "determine_types data DATASET_FIELD_TYPE_CONFIG")
  have res: "res = (if \<exists>el \<in> set data. \<not> input_audio el then Inl TypeError
                    else Inr (replicate (length data) ''input_audio''))"
    using determine_types_table [of data] d by simp
  have dup: "has_duplicates (replicate (length data) ''input_audio'') \<longleftrightarrow> 2 \<le> length data"
    by (cases data; cases "tl data") (auto simp: has_duplicates_iff)
  have out: "fst (data_tuple_to_kwargs data t) =
      (if \<exists>el \<in> set data. \<not> input_audio el then Inl TypeError
       else if 2 \<le> length data then Inl AssertionError
       else Inr (dict_of (zip (replicate (length data) ''input_audio'') data)))"
    using assms d res dup by (auto simp: data_tuple_to_kwargs_def Let_def)
  have short: "\<not> 2 \<le> length data \<longleftrightarrow> data = [] \<or> (\<exists>el. data = [el])"
    by (cases data; cases "tl data") auto
  show ?thesis
  proof (intro conjI impI)
    assume "2 \<le> length data"
    with out show "fst (data_tuple_to_kwargs data t) =
        (if \<exists>el \<in> set data. \<not> input_audio el then Inl TypeError else Inl AssertionError)"
      by simp
  next
    show "(\<exists>kwargs. fst (data_tuple_to_kwargs data t) = Inr kwargs) \<longleftrightarrow>
            data = [] \<or> (\<exists>el. data = [el] \<and> input_audio el)"
      using out short by (auto split: if_splits)
  qed
qed

text \<open>The amended claim C10 on two tuples of two elements and one of one.\<close>

theorem longer_tuples_fail_witness:
  "fst (data_tuple_to_kwargs [Tensor Float32 2, Tensor Float32 3] demo_trainer) = Inl AssertionError \<and>
   fst (data_tuple_to_kwargs [Tensor Float32 2, NotTensor] demo_trainer) = Inl TypeError \<and>
   (\<exists>kwargs. fst (data_tuple_to_kwargs [Tensor Float32 3] demo_trainer) = Inr kwargs)"
proof -
  have n: "ds_fields demo_trainer = None" by (simp add: demo_trainer_def)
  have a: "fst (data_tuple_to_kwargs [Tensor Float32 2, Tensor Float32 3] demo_trainer) = Inl AssertionError"
    using longer_tuples_fail [OF n, of "[Tensor Float32 2, Tensor Float32 3]"]
    by (simp add: input_audio_def)
  have b: "fst (data_tuple_to_kwargs [Tensor Float32 2, NotTensor] demo_trainer) = Inl TypeError"
    using longer_tuples_fail [OF n, of "[Tensor Float32 2, NotTensor]"]
    by (simp add: input_audio_def)
  have c: "\<exists>kwargs. fst (data_tuple_to_kwargs [Tensor Float32 3] demo_trainer) = Inr kwargs"
    using longer_tuples_fail [OF n, of "[Tensor Float32 3]"]
    by (simp add: input_audio_def)
  from a b c show ?thesis by simp
qed

end
